theory Spec2Isabelle
  imports Complex_Main "HOL-Library.Char_ord" "HOL-Library.List_Lexorder"
begin

section \<open>Data model of the portal (the API types of the frontend)\<close>

text \<open>
  The interfaces of the frontend's type module, one record or datatype each. A TypeScript
  \<^verbatim>\<open>number\<close> that carries a coordinate or a score is a \<^typ>\<open>real\<close>, one that
  carries a count or a size is a \<^typ>\<open>nat\<close>; an optional field is an \<^typ>\<open>'a option\<close>.
  Field names that several interfaces share (\<^verbatim>\<open>id\<close>, \<^verbatim>\<open>region_id\<close>,
  \<^verbatim>\<open>created_at\<close>, ...) carry a short suffix naming the interface.
\<close>

record BoundingBox =
  min_lat :: real
  min_lon :: real
  max_lat :: real
  max_lon :: real

record Region =
  id_R :: string
  name_R :: string
  admin_level :: string
  parent_id :: "string option"
  bounding_box :: BoundingBox
  area_km2 :: "real option"
  population :: "nat option"
  country_code :: "string option"
  geofabrik_url :: "string option"
  has_children :: bool
  provides_data_services :: bool
  created_at_R :: string
  updated_at_R :: string

datatype FileFormat = OsmPbf | OsmXml | GeoJson

record DataFile =
  id_F :: string
  region_id_F :: string
  version :: string
  file_path :: string
  file_size :: nat
  format :: FileFormat
  created_at_F :: string
  is_latest :: bool
  quality_report_id :: "string option"

text \<open>
  \<^verbatim>\<open>QualityMetrics\<close>: the raw counts, the derived completeness score and the error
  counts. \<^verbatim>\<open>custom_metrics: Record<string, any>\<close> is kept as a list of named numbers.
\<close>

record QualityMetrics =
  total_nodes :: nat
  total_ways :: nat
  total_relations :: nat
  tagged_nodes :: nat
  tagged_ways :: nat
  tagged_relations :: nat
  completeness_score_M :: real
  geometry_errors :: nat
  tag_errors :: nat
  topology_errors :: nat
  custom_metrics :: "(string \<times> real) list"

text \<open>The \<^verbatim>\<open>issues\<close> object of a \<^verbatim>\<open>QualityReport\<close>.\<close>

record QualityIssues =
  missing_tags :: nat
  geometry_errors_I :: nat
  topology_issues :: nat
  outdated_data :: nat

record QualityReport =
  id_Q :: string
  region_id_Q :: string
  report_date :: string
  completeness_score :: real
  accuracy_score :: real
  freshness_score :: real
  overall_score :: real
  issues :: QualityIssues
  recommendations :: "string list"

text \<open>
  \<^verbatim>\<open>job_type: 'Download' | 'Process' | 'QualityAnalysis' | 'Cleanup'\<close> and
  \<^verbatim>\<open>status: 'Pending' | 'Running' | 'Completed' | 'Failed' | 'Cancelled'\<close>: unions of
  string literals, one constructor per literal; \<open>job_type_name\<close> gives the literal back.
\<close>

datatype JobType = Download | Process | QualityAnalysis | Cleanup

datatype JobStatus = Pending | Running | Completed | Failed | Cancelled

fun job_type_name :: "JobType \<Rightarrow> string" where
  "job_type_name Download = ''Download''"
| "job_type_name Process = ''Process''"
| "job_type_name QualityAnalysis = ''QualityAnalysis''"
| "job_type_name Cleanup = ''Cleanup''"

record ProcessingJob =
  id_J :: string
  region_id_J :: string
  job_type :: JobType
  status :: JobStatus
  progress :: nat
  message :: "string option"
  created_at_J :: string
  started_at :: "string option"
  completed_at :: "string option"

datatype RegionTree =
  RegionTree (region: Region) (children: "RegionTree list") (data_files: "DataFile list")

section \<open>The map component: \<^verbatim>\<open>calculateZoom\<close>\<close>

text \<open>
  \<^verbatim>\<open>
  const calculateZoom = (bbox: BoundingBox) => {
      const latDiff = bbox.max_lat - bbox.min_lat;
      const lonDiff = bbox.max_lon - bbox.min_lon;
      const maxDiff = Math.max(latDiff, lonDiff);
      if (maxDiff > 50) return 3;
      if (maxDiff > 20) return 4;
      if (maxDiff > 10) return 5;
      if (maxDiff > 5) return 6;
      if (maxDiff > 2) return 7;
      if (maxDiff > 1) return 8;
      if (maxDiff > 0.5) return 9;
      return 10;
  };
  \<close>
  The coordinates are the finite numbers of a decoded JSON document; they are read as reals.
\<close>

definition maxDiff :: "BoundingBox \<Rightarrow> real" where
  "maxDiff bbox = max (max_lat bbox - min_lat bbox) (max_lon bbox - min_lon bbox)"

definition calculateZoom :: "BoundingBox \<Rightarrow> int" where
  "calculateZoom bbox =
     (if maxDiff bbox > 50 then 3
      else if maxDiff bbox > 20 then 4
      else if maxDiff bbox > 10 then 5
      else if maxDiff bbox > 5 then 6
      else if maxDiff bbox > 2 then 7
      else if maxDiff bbox > 1 then 8
      else if maxDiff bbox > 1 / 2 then 9
      else 10)"

section \<open>The compact region list: \<^verbatim>\<open>toggleExpanded\<close>\<close>

text \<open>
  \<^verbatim>\<open>
  const toggleExpanded = (regionId: string) => {
      const newExpanded = new Set(expandedRegions)
      if (newExpanded.has(regionId)) { newExpanded.delete(regionId) }
      else { newExpanded.add(regionId) }
      setExpandedRegions(newExpanded)
  }
  \<close>
  The component's state \<^verbatim>\<open>expandedRegions\<close> is passed in and the new state returned.
\<close>

definition toggleExpanded :: "string set \<Rightarrow> string \<Rightarrow> string set" where
  "toggleExpanded expandedRegions regionId =
     (if regionId \<in> expandedRegions then expandedRegions - {regionId}
      else insert regionId expandedRegions)"

section \<open>The region page: \<^verbatim>\<open>findRegionById\<close>\<close>

text \<open>
  \<^verbatim>\<open>
  const findRegionById = (regionList: RegionTree[], id: string): RegionTree | null => {
      for (const region of regionList) {
          if (region.region.id === id) { return region }
          const found = findRegionById(region.children, id)
          if (found) { return found }
      }
      return null
  }
  \<close>
  The loop over the list and the recursion into the children are one recursive function on
  the forest; \<^verbatim>\<open>null\<close> is \<^const>\<open>None\<close>.
\<close>

function findRegionById :: "RegionTree list \<Rightarrow> string \<Rightarrow> RegionTree option" where
  "findRegionById [] i = None"
| "findRegionById (RegionTree r cs fs # rest) i =
     (if id_R r = i then Some (RegionTree r cs fs)
      else (case findRegionById cs i of
              Some found \<Rightarrow> Some found
            | None \<Rightarrow> findRegionById rest i))"
  by pat_completeness auto
termination
  by (relation "measure (\<lambda>(ts, i). size_list size ts)") auto

text \<open>
  The nodes of a forest in depth-first pre-order: a node, then the nodes below it, then the
  nodes of the trees to its right. This is the order the claim about \<^const>\<open>findRegionById\<close>
  speaks of; it is not part of the program.
\<close>

function preorder_nodes :: "RegionTree list \<Rightarrow> RegionTree list" where
  "preorder_nodes [] = []"
| "preorder_nodes (RegionTree r cs fs # rest) =
     RegionTree r cs fs # preorder_nodes cs @ preorder_nodes rest"
  by pat_completeness auto
termination
  by (relation "measure (size_list size)") auto

section \<open>The region card and the region list: the latest file of a node\<close>


section \<open>The Artifact Store\<close>

text \<open>
  The store's code is not among the sources; the frontend only reads what it publishes.
  Its operations follow the design document.
\<close>

text \<open>Modelled from the spec: the failures of \<open>publish\<close> (a failed storage write, and a
  second publish of a version that already exists when duplicates are rejected).\<close>

datatype StoreError = StorageError | Conflict

text \<open>Modelled from the spec: a publish of an existing region and version is idempotent or
  rejected, the implementer's choice; both choices are kept.\<close>

datatype DuplicatePolicy = Idempotent | Reject

text \<open>Modelled from the spec: the persisted layout, one metadata record per published
  version (newest first) and a single latest pointer per region.\<close>

record ArtifactStore =
  files :: "DataFile list"
  latest_ptr :: "string \<rightharpoonup> string"

text \<open>Modelled from the spec: the store of a system in which nothing was published.\<close>

definition empty_store :: ArtifactStore where
  "empty_store = \<lparr>files = [], latest_ptr = Map.empty\<rparr>"

text \<open>Modelled from the spec: step (c) of \<open>publish\<close>, demoting a prior latest file of the
  region; files of other regions are left alone.\<close>

definition demote :: "string \<Rightarrow> DataFile \<Rightarrow> DataFile" where
  "demote regionId f = (if region_id_F f = regionId then f\<lparr>is_latest := False\<rparr> else f)"

text \<open>Modelled from the spec: the metadata record of a region's version, if published.\<close>

definition find_version :: "ArtifactStore \<Rightarrow> string \<Rightarrow> string \<Rightarrow> DataFile option" where
  "find_version st regionId ver =
     find (\<lambda>f. region_id_F f = regionId \<and> version f = ver) (files st)"

text \<open>
  Modelled from the spec: \<open>publish(regionId, version, format, bytes)\<close> of the
  Artifact Store, whose code is not among the sources. On success it
  (a) writes the versioned file, (b) points the latest marker to this version and (c) demotes
  the prior latest file of the region, all in one atomic step. \<open>now\<close> is the creation time
  and \<open>write_ok\<close> tells whether the write to stable storage succeeded: a failed write leaves
  no artifact visible. Artifacts are laid out by region id under version-named files, which
  gives the file path; the same key serves as the file's id.
\<close>

definition publish ::
  "DuplicatePolicy \<Rightarrow> string \<Rightarrow> bool \<Rightarrow> ArtifactStore \<Rightarrow> string \<Rightarrow> string \<Rightarrow> FileFormat
     \<Rightarrow> nat list \<Rightarrow> StoreError + (ArtifactStore \<times> DataFile)" where
  "publish policy now write_ok st regionId ver fmt bytes =
     (case find_version st regionId ver of
        Some existing \<Rightarrow>
          (case policy of Idempotent \<Rightarrow> Inr (st, existing) | Reject \<Rightarrow> Inl Conflict)
      | None \<Rightarrow>
          if \<not> write_ok then Inl StorageError
          else
            let new = \<lparr>id_F = regionId @ ''/'' @ ver, region_id_F = regionId, version = ver,
                       file_path = regionId @ ''/'' @ ver, file_size = length bytes,
                       format = fmt, created_at_F = now, is_latest = True,
                       quality_report_id = None\<rparr>
            in Inr (\<lparr>files = new # map (demote regionId) (files st),
                      latest_ptr = (latest_ptr st)(regionId \<mapsto> ver)\<rparr>, new))"



text \<open>Modelled from the spec: one call of \<open>publish\<close> with its arguments and the two facts
  of its environment.\<close>

record PublishCall =
  call_region :: string
  call_version :: string
  call_format :: FileFormat
  call_bytes :: "nat list"
  call_now :: string
  call_write_ok :: bool

text \<open>Modelled from the spec: the store after a call; a failed publish changes nothing.
  Publishes are serialized, so the store's history is a sequence of such steps.\<close>

definition publish_step :: "DuplicatePolicy \<Rightarrow> ArtifactStore \<Rightarrow> PublishCall \<Rightarrow> ArtifactStore" where
  "publish_step policy st c =
     (case publish policy (call_now c) (call_write_ok c) st (call_region c) (call_version c)
             (call_format c) (call_bytes c) of
        Inl e \<Rightarrow> st
      | Inr (st', f) \<Rightarrow> st')"

text \<open>Modelled from the spec: the store observed after a sequence of publish calls, starting
  from the empty store.\<close>

definition store_after :: "DuplicatePolicy \<Rightarrow> PublishCall list \<Rightarrow> ArtifactStore" where
  "store_after policy calls = foldl (publish_step policy) empty_store calls"



section \<open>The Version Differ and the comparison dialog\<close>

text \<open>Modelled from the spec: the differ's two errors.\<close>

datatype CompareError = VersionNotFound | InvalidOrder

text \<open>Modelled from the spec: the comparison returned by \<open>compare\<close>: region id, the two
  versions, the comparison time, the file-size delta, and the change tallies computed by the
  diff algorithm, whose type \<open>'d\<close> is left open.\<close>

record 'd Comparison =
  region_id_C :: string
  from_version :: string
  to_version :: string
  comparison_date :: string
  file_size_change :: int
  changes :: 'd

text \<open>
  Modelled from the spec: \<open>compare(regionId, fromVersion, toVersion)\<close> of the Version
  Differ, whose code is not among the sources. Version identifiers
  are ordered lexicographically, which is their chronological order; \<open>fromVersion\<close> must
  precede or equal \<open>toVersion\<close>, or the operation fails with \<open>InvalidOrder\<close>. Both versions
  must be published, or it fails with \<open>VersionNotFound\<close>. \<open>dataset_of\<close> decodes a stored
  artifact again and \<open>differ\<close> is the diff algorithm; the design leaves both open.
\<close>

definition compare ::
  "('s \<Rightarrow> 's \<Rightarrow> 'd) \<Rightarrow> (DataFile \<Rightarrow> 's) \<Rightarrow> string \<Rightarrow> ArtifactStore \<Rightarrow> string \<Rightarrow> string \<Rightarrow> string
     \<Rightarrow> CompareError + 'd Comparison" where
  "compare differ dataset_of now st regionId fromV toV =
     (if toV < fromV then Inl InvalidOrder
      else (case find_version st regionId fromV of
              None \<Rightarrow> Inl VersionNotFound
            | Some a \<Rightarrow>
                (case find_version st regionId toV of
                   None \<Rightarrow> Inl VersionNotFound
                 | Some b \<Rightarrow>
                     Inr \<lparr>region_id_C = regionId, from_version = fromV, to_version = toV,
                          comparison_date = now,
                          file_size_change = int (file_size b) - int (file_size a),
                          changes = differ (dataset_of a) (dataset_of b)\<rparr>)))"

text \<open>
  The state of the version comparison dialog and its handler:
  \<^verbatim>\<open>
  const handleCompare = async () => {
      if (!fromVersion || !toVersion) return
      try {
          setLoading(true)
          setError(null)
          const comparisonData = await api.regions.compare(regionId, fromVersion, toVersion)
          setComparison(comparisonData as any)
      } catch (err) {
          setError('Failed to load version comparison')
      } finally {
          setLoading(false)
      }
  }
  \<close>
  \<open>api_compare\<close> is the request to the backend (\<^verbatim>\<open>compareVersions\<close> of the API
  client), which either gives the comparison or fails; an empty string is falsy.
\<close>

record 'c CompareModal =
  fromVersion :: string
  toVersion :: string
  comparison :: "'c option"
  loading_V :: bool
  error_V :: "string option"

definition handleCompare ::
  "(string \<Rightarrow> string \<Rightarrow> string \<Rightarrow> 'e + 'c) \<Rightarrow> string \<Rightarrow> 'c CompareModal \<Rightarrow> 'c CompareModal" where
  "handleCompare api_compare regionId m =
     (if fromVersion m = [] \<or> toVersion m = [] then m
      else (case api_compare regionId (fromVersion m) (toVersion m) of
              Inr comparisonData \<Rightarrow>
                m\<lparr>error_V := None, comparison := Some comparisonData, loading_V := False\<rparr>
            | Inl err \<Rightarrow>
                m\<lparr>error_V := Some ''Failed to load version comparison'', loading_V := False\<rparr>))"

section \<open>The Job Orchestrator\<close>

text \<open>Modelled from the spec: the state machine of a job,
  Pending to Running to one of Completed, Failed and Cancelled; no other transition.\<close>

fun job_step :: "JobStatus \<Rightarrow> JobStatus \<Rightarrow> bool" where
  "job_step Pending Running = True"
| "job_step Running Completed = True"
| "job_step Running Failed = True"
| "job_step Running Cancelled = True"
| "job_step _ _ = False"

text \<open>Modelled from the spec: the terminal states.\<close>

fun terminal :: "JobStatus \<Rightarrow> bool" where
  "terminal Completed = True"
| "terminal Failed = True"
| "terminal Cancelled = True"
| "terminal _ = False"

text \<open>Modelled from the spec: the admission-control rejection.\<close>

datatype OrchestratorError = AlreadyInProgress

text \<open>
  Modelled from the spec: \<open>requestProcessing(regionId)\<close> of the Job Orchestrator, whose
  code is not among the sources; the frontend reaches it through
  \<^verbatim>\<open>processRegion\<close> (a POST to the region's process route). The request is checked
  against a lookup by region id: a region with a Running job is rejected as
  \<open>AlreadyInProgress\<close> (of the two policies the design allows, rejection is the one taken
  here); otherwise a new job is recorded in status Pending and returned at once. \<open>jobId\<close>
  and \<open>now\<close> are the fresh id and the time of the request; the job type is the one the
  frontend's type has for processing.
\<close>

definition requestProcessing ::
  "ProcessingJob list \<Rightarrow> string \<Rightarrow> string \<Rightarrow> string
     \<Rightarrow> OrchestratorError + (ProcessingJob list \<times> ProcessingJob)" where
  "requestProcessing jobs jobId now regionId =
     (if \<exists>j \<in> set jobs. region_id_J j = regionId \<and> status j = Running
      then Inl AlreadyInProgress
      else
        let job = \<lparr>id_J = jobId, region_id_J = regionId, job_type = Process, status = Pending,
                   progress = 0, message = None, created_at_J = now, started_at = None,
                   completed_at = None\<rparr>
        in Inr (jobs @ [job], job))"

text \<open>Modelled from the spec: the stages of a job's pipeline, in order.\<close>

datatype Stage = Fetch | Decode | Analyze | Publish

text \<open>Modelled from the spec: what happens to a job, each with its time: the orchestrator
  dequeues it, a stage succeeds, a stage fails with an unrecoverable error, or an external
  cancellation request is observed at a checkpoint between two stages.\<close>

datatype JobEvent =
    Dequeued string
  | StageDone Stage string
  | StageFailed Stage string string
  | CancelObserved string

text \<open>Modelled from the spec: progress at the stage boundaries, 25 after fetch, 50 after
  decode, 75 after analysis, 100 after publish.\<close>

fun progress_after :: "Stage \<Rightarrow> nat" where
  "progress_after Fetch = 25"
| "progress_after Decode = 50"
| "progress_after Analyze = 75"
| "progress_after Publish = 100"

text \<open>
  Modelled from the spec: the effect of an event on a job, which the orchestrator's missing
  code decides. Dequeuing moves a Pending job to
  Running; a Running job is Completed by the success of its last stage, Failed by an error
  (recorded in its message) and Cancelled by an observed cancellation. An event that does
  not apply in the job's status changes nothing.
\<close>

fun apply_event :: "ProcessingJob \<Rightarrow> JobEvent \<Rightarrow> ProcessingJob" where
  "apply_event j (Dequeued t) =
     (if status j = Pending then j\<lparr>status := Running, started_at := Some t\<rparr> else j)"
| "apply_event j (StageDone s t) =
     (if status j = Running then
        (if s = Publish
         then j\<lparr>status := Completed, progress := progress_after s, completed_at := Some t\<rparr>
         else j\<lparr>progress := progress_after s\<rparr>)
      else j)"
| "apply_event j (StageFailed s msg t) =
     (if status j = Running
      then j\<lparr>status := Failed, message := Some msg, completed_at := Some t\<rparr>
      else j)"
| "apply_event j (CancelObserved t) =
     (if status j = Running then j\<lparr>status := Cancelled, completed_at := Some t\<rparr> else j)"

text \<open>Modelled from the spec: the outcome of running one stage.\<close>

datatype StageResult = StageOk | StageError string

text \<open>
  Modelled from the spec: the events of a pipeline run. The stages run in order; an error
  ends the run, and after a successful stage that is not the last one a cancellation request,
  if observed at that checkpoint (\<open>cancel_after\<close>), ends it. \<open>clock\<close> gives the time of the
  \<open>n\<close>-th step.
\<close>

fun pipeline_events ::
  "(Stage \<Rightarrow> StageResult) \<Rightarrow> (Stage \<Rightarrow> bool) \<Rightarrow> (nat \<Rightarrow> string) \<Rightarrow> nat \<Rightarrow> Stage list
     \<Rightarrow> JobEvent list" where
  "pipeline_events result cancel_after clock n [] = []"
| "pipeline_events result cancel_after clock n (s # rest) =
     (case result s of
        StageError msg \<Rightarrow> [StageFailed s msg (clock n)]
      | StageOk \<Rightarrow>
          StageDone s (clock n) #
            (if rest \<noteq> [] \<and> cancel_after s then [CancelObserved (clock n)]
             else pipeline_events result cancel_after clock (Suc n) rest))"

text \<open>Modelled from the spec: the events of a job's life once it was requested: it is
  dequeued, then its pipeline runs Fetch, Decode, Analyze and Publish.\<close>

definition job_events ::
  "(Stage \<Rightarrow> StageResult) \<Rightarrow> (Stage \<Rightarrow> bool) \<Rightarrow> (nat \<Rightarrow> string) \<Rightarrow> JobEvent list" where
  "job_events result cancel_after clock =
     Dequeued (clock 0) #
       pipeline_events result cancel_after clock 1 [Fetch, Decode, Analyze, Publish]"

text \<open>Modelled from the spec: the statuses a job goes through under a sequence of events,
  the status before each event and the last one.\<close>

fun status_trace :: "ProcessingJob \<Rightarrow> JobEvent list \<Rightarrow> JobStatus list" where
  "status_trace j [] = [status j]"
| "status_trace j (e # es) = status j # status_trace (apply_event j e) es"

text \<open>The job types as the design document lists them, to compare with
  \<^const>\<open>job_type_name\<close>.\<close>

definition spec_job_type_names :: "string set" where
  "spec_job_type_names = {''Download'', ''Decode'', ''QualityAnalysis'', ''Cleanup''}"

section \<open>The Quality Analyzer\<close>

text \<open>Modelled from the spec: the decoded dataset, the counts of nodes, ways and relations,
  of the tagged ones among each, and of the malformed records that were tolerated.\<close>

record DecodedDataset =
  nodes :: nat
  ways :: nat
  relations :: nat
  nodes_tagged :: nat
  ways_tagged :: nat
  relations_tagged :: nat
  errors_geometry :: nat
  errors_tag :: nat
  errors_topology :: nat

text \<open>Modelled from the spec: the constants the design leaves to configuration: the two
  penalty weights of the accuracy score, the staleness threshold and the floor of the
  freshness score, the three weights of the overall score, and the ordered recommendation
  rules, each a predicate on the report and a message.\<close>

record AnalyzerConfig =
  geometry_weight :: real
  topology_weight :: real
  staleness_threshold :: real
  freshness_floor :: real
  completeness_share :: real
  accuracy_share :: real
  freshness_share :: real
  rules :: "((QualityReport \<Rightarrow> bool) \<times> string) list"

text \<open>Modelled from the spec: the denominator of the completeness score.\<close>

definition total_features :: "DecodedDataset \<Rightarrow> nat" where
  "total_features ds = nodes ds + ways ds + relations ds"

text \<open>Modelled from the spec: the numerator of the completeness score.\<close>

definition tagged_features :: "DecodedDataset \<Rightarrow> nat" where
  "tagged_features ds = nodes_tagged ds + ways_tagged ds + relations_tagged ds"

text \<open>Modelled from the spec: clamping to the interval from 0 to 100.\<close>

definition clamp_score :: "real \<Rightarrow> real" where
  "clamp_score x = max 0 (min 100 x)"

text \<open>Modelled from the spec: completeness is 100 times the tagged features over all
  features, clamped to [0,100]; 0 when the denominator is 0.\<close>

definition completeness :: "DecodedDataset \<Rightarrow> real" where
  "completeness ds =
     (if total_features ds = 0 then 0
      else clamp_score (100 * real (tagged_features ds) / real (total_features ds)))"

text \<open>Modelled from the spec: errors per 1000 features. The design does not say what the
  rate of a dataset without features is; it is taken as 0 here.\<close>

definition per_thousand :: "nat \<Rightarrow> nat \<Rightarrow> real" where
  "per_thousand errors n = (if n = 0 then 0 else 1000 * real errors / real n)"

text \<open>Modelled from the spec: accuracy is 100 minus the weighted penalty from the geometry
  and topology errors per 1000 features, capped so that it never goes negative.\<close>

definition accuracy :: "AnalyzerConfig \<Rightarrow> DecodedDataset \<Rightarrow> real" where
  "accuracy cfg ds =
     max 0 (100 - (geometry_weight cfg * per_thousand (errors_geometry ds) (total_features ds)
                 + topology_weight cfg * per_thousand (errors_topology ds) (total_features ds)))"

text \<open>Modelled from the spec: freshness decays with the age of the source data, from 100 at
  age 0 to the floor at the staleness threshold and beyond; the curve between is taken
  linear, the design giving it only by example.\<close>

definition freshness :: "AnalyzerConfig \<Rightarrow> real \<Rightarrow> real" where
  "freshness cfg age =
     (if staleness_threshold cfg \<le> 0 \<or> staleness_threshold cfg \<le> age then freshness_floor cfg
      else if age \<le> 0 then 100
      else 100 - (100 - freshness_floor cfg) * age / staleness_threshold cfg)"

text \<open>Modelled from the spec: the overall score, the fixed-weight average of the three.\<close>

definition overall :: "AnalyzerConfig \<Rightarrow> real \<Rightarrow> real \<Rightarrow> real \<Rightarrow> real" where
  "overall cfg c a f =
     (completeness_share cfg * c + accuracy_share cfg * a + freshness_share cfg * f)
       / (completeness_share cfg + accuracy_share cfg + freshness_share cfg)"

text \<open>Modelled from the spec: the quality metrics of a dataset, its raw counts with the
  derived completeness score.\<close>

definition quality_metrics :: "DecodedDataset \<Rightarrow> QualityMetrics" where
  "quality_metrics ds =
     \<lparr>total_nodes = nodes ds, total_ways = ways ds, total_relations = relations ds,
      tagged_nodes = nodes_tagged ds, tagged_ways = ways_tagged ds,
      tagged_relations = relations_tagged ds, completeness_score_M = completeness ds,
      geometry_errors = errors_geometry ds, tag_errors = errors_tag ds,
      topology_errors = errors_topology ds, custom_metrics = []\<rparr>"

text \<open>
  Modelled from the spec: \<open>analyze(DecodedDataset, region)\<close> of the Quality Analyzer,
  whose code is not among the sources, with the id and date of the new
  report and the age of the source data supplied alongside. The scores are derived as above,
  the issue summary is read off the counts, and every recommendation rule that matches
  contributes its message, in the rules' order.
\<close>

definition analyze ::
  "AnalyzerConfig \<Rightarrow> string \<Rightarrow> string \<Rightarrow> real \<Rightarrow> DecodedDataset \<Rightarrow> string \<Rightarrow> QualityReport" where
  "analyze cfg reportId reportDate age ds regionId =
     (let m = quality_metrics ds;
          c = completeness_score_M m; a = accuracy cfg ds; f = freshness cfg age;
          r = \<lparr>id_Q = reportId, region_id_Q = regionId, report_date = reportDate,
               completeness_score = c, accuracy_score = a, freshness_score = f,
               overall_score = overall cfg c a f,
               issues = \<lparr>missing_tags = total_features ds - tagged_features ds,
                         geometry_errors_I = geometry_errors m,
                         topology_issues = topology_errors m,
                         outdated_data = (if staleness_threshold cfg \<le> age then 1 else 0)\<rparr>,
               recommendations = []\<rparr>
      in r\<lparr>recommendations := map snd (filter (\<lambda>rule. fst rule r) (rules cfg))\<rparr>)"

text \<open>Modelled from the spec: an all-tagged dataset: every node, way and relation carries a
  tag.\<close>

definition all_tagged :: "DecodedDataset \<Rightarrow> bool" where
  "all_tagged ds \<longleftrightarrow>
     nodes_tagged ds = nodes ds \<and> ways_tagged ds = ways ds \<and> relations_tagged ds = relations ds"

text \<open>Modelled from the spec: an error-free dataset: no malformed record was counted.\<close>

definition error_free :: "DecodedDataset \<Rightarrow> bool" where
  "error_free ds \<longleftrightarrow> errors_geometry ds = 0 \<and> errors_tag ds = 0 \<and> errors_topology ds = 0"

section \<open>Reading a quality report\<close>

text \<open>Modelled from the spec: the error of a read whose region, version or report id is
  unknown.\<close>

datatype ApiError = NotFound

text \<open>Modelled from the spec: the backend's read operation, whose code is not among the
  sources: fetching a quality report by report id from the persisted reports.\<close>

definition fetch_report :: "(string \<rightharpoonup> QualityReport) \<Rightarrow> string \<Rightarrow> ApiError + QualityReport" where
  "fetch_report reports reportId =
     (case reports reportId of None \<Rightarrow> Inl NotFound | Some r \<Rightarrow> Inr r)"

text \<open>Modelled from the spec: the transport's route for reports, which hands the last
  segment of the path \<^verbatim>\<open>/reports/<id>\<close> to the read operation.\<close>

definition serve_get :: "(string \<rightharpoonup> QualityReport) \<Rightarrow> string \<Rightarrow> ApiError + QualityReport" where
  "serve_get reports path =
     (if take 9 path = ''/reports/'' then fetch_report reports (drop 9 path) else Inl NotFound)"

text \<open>
  The API client:
  \<^verbatim>\<open>
  async getQualityReport(reportId: string): Promise<QualityReport> {
      const response = await this.client.get(`/reports/${reportId}`);
      return response.data;
  }
  \<close>
  A rejected promise is an \<^const>\<open>Inl\<close>.
\<close>

definition getQualityReport :: "(string \<rightharpoonup> QualityReport) \<Rightarrow> string \<Rightarrow> ApiError + QualityReport" where
  "getQualityReport reports reportId = serve_get reports (''/reports/'' @ reportId)"

text \<open>
  The quality report dialog, whose properties are \<^verbatim>\<open>regionId\<close> and
  \<^verbatim>\<open>regionName\<close>, and its loader:
  \<^verbatim>\<open>
  const loadQualityReport = async () => {
      try {
          setLoading(true)
          setError(null)
          const reportData = await api.getQualityReport(regionId)
          setReport(reportData)
      } catch (err) {
          setError('Failed to load quality report')
      } finally {
          setLoading(false)
      }
  }
  \<close>
\<close>

record QualityReportModal =
  report :: "QualityReport option"
  loading_Q :: bool
  error_Q :: "string option"

definition loadQualityReport ::
  "(string \<rightharpoonup> QualityReport) \<Rightarrow> string \<Rightarrow> QualityReportModal \<Rightarrow> QualityReportModal" where
  "loadQualityReport reports regionId m =
     (case getQualityReport reports regionId of
        Inr reportData \<Rightarrow> m\<lparr>error_Q := None, report := Some reportData, loading_Q := False\<rparr>
      | Inl err \<Rightarrow> m\<lparr>error_Q := Some ''Failed to load quality report'', loading_Q := False\<rparr>)"

section \<open>Example inputs\<close>

text \<open>Concrete values on which the theorems below are instantiated.\<close>

definition example_region :: "string \<Rightarrow> string \<Rightarrow> string option \<Rightarrow> Region" where
  "example_region i level parent =
     \<lparr>id_R = i, name_R = i, admin_level = level, parent_id = parent,
      bounding_box = \<lparr>min_lat = 47, min_lon = 9, max_lat = 48, max_lon = 10\<rparr>,
      area_km2 = None, population = None, country_code = None, geofabrik_url = None,
      has_children = False, provides_data_services = True,
      created_at_R = ''2024-01-01'', updated_at_R = ''2024-01-01''\<rparr>"

definition example_forest :: "RegionTree list" where
  "example_forest =
     [RegionTree (example_region ''world'' ''World'' None)
        [RegionTree (example_region ''europe'' ''Continent'' (Some ''world''))
           [RegionTree (example_region ''liechtenstein'' ''Country'' (Some ''europe'')) [] []] [],
         RegionTree (example_region ''asia'' ''Continent'' (Some ''world'')) [] []] []]"

definition example_calls :: "PublishCall list" where
  "example_calls =
     [\<lparr>call_region = ''liechtenstein'', call_version = ''2023-12-01'', call_format = OsmPbf,
       call_bytes = [1, 2, 3], call_now = ''2023-12-01T06:00'', call_write_ok = True\<rparr>,
      \<lparr>call_region = ''monaco'', call_version = ''2023-12-01'', call_format = OsmPbf,
       call_bytes = [4], call_now = ''2023-12-01T07:00'', call_write_ok = True\<rparr>,
      \<lparr>call_region = ''liechtenstein'', call_version = ''2024-01-01'', call_format = OsmPbf,
       call_bytes = [1, 2, 3, 4], call_now = ''2024-01-01T06:00'', call_write_ok = True\<rparr>,
      \<lparr>call_region = ''liechtenstein'', call_version = ''2024-02-01'', call_format = OsmPbf,
       call_bytes = [], call_now = ''2024-02-01T06:00'', call_write_ok = False\<rparr>,
      \<lparr>call_region = ''liechtenstein'', call_version = ''2023-12-01'', call_format = OsmPbf,
       call_bytes = [9], call_now = ''2024-02-02T06:00'', call_write_ok = True\<rparr>]"



definition example_job :: ProcessingJob where
  "example_job =
     \<lparr>id_J = ''job-1'', region_id_J = ''X'', job_type = Process, status = Pending, progress = 0,
      message = None, created_at_J = ''2024-01-01T06:00'', started_at = None,
      completed_at = None\<rparr>"

definition example_config :: AnalyzerConfig where
  "example_config =
     \<lparr>geometry_weight = 1, topology_weight = 1, staleness_threshold = 365, freshness_floor = 0,
      completeness_share = 1, accuracy_share = 1, freshness_share = 1,
      rules = [(\<lambda>r. completeness_score r < 70,
                ''high missing-tag rate: consider tag-completion pass'')]\<rparr>"

definition empty_dataset :: DecodedDataset where
  "empty_dataset =
     \<lparr>nodes = 0, ways = 0, relations = 0, nodes_tagged = 0, ways_tagged = 0,
      relations_tagged = 0, errors_geometry = 0, errors_tag = 0, errors_topology = 0\<rparr>"

definition example_dataset :: DecodedDataset where
  "example_dataset =
     \<lparr>nodes = 800, ways = 150, relations = 50, nodes_tagged = 800, ways_tagged = 150,
      relations_tagged = 50, errors_geometry = 0, errors_tag = 0, errors_topology = 0\<rparr>"

definition example_report :: QualityReport where
  "example_report =
     analyze example_config ''qr-1'' ''2024-01-01'' 0 example_dataset ''liechtenstein''"

definition example_reports :: "string \<rightharpoonup> QualityReport" where
  "example_reports = [''qr-1'' \<mapsto> example_report]"

section \<open>Properties of the map and list components\<close>

lemma calculateZoom_cases:
  "calculateZoom b \<in> {3, 4, 5, 6, 7, 8, 9, 10}"
  by (simp add: calculateZoom_def)

text \<open>
  Claim C9. For every bounding box \<^const>\<open>calculateZoom\<close> returns an integer from 3 to 10,
  and a box whose larger side is at least as large as another's gets a zoom no greater than
  the other's.
\<close>

theorem calculateZoom_range_antimono:
  "3 \<le> calculateZoom b \<and> calculateZoom b \<le> 10 \<and>
   (maxDiff b2 \<le> maxDiff b1 \<longrightarrow> calculateZoom b1 \<le> calculateZoom b2)"
proof -
  have bounds: "3 \<le> calculateZoom b \<and> calculateZoom b \<le> 10"
    using calculateZoom_cases [of b] by auto
  have antimono: "calculateZoom b1 \<le> calculateZoom b2" if "maxDiff b2 \<le> maxDiff b1"
    using that by (simp add: calculateZoom_def)
  from bounds antimono show ?thesis
    by blast
qed

theorem calculateZoom_range_antimono_witness:
  "maxDiff \<lparr>min_lat = 47, min_lon = 9, max_lat = 48, max_lon = 10\<rparr>
     \<le> maxDiff \<lparr>min_lat = 35, min_lon = -10, max_lat = 71, max_lon = 40\<rparr>
   \<and> calculateZoom \<lparr>min_lat = 35, min_lon = -10, max_lat = 71, max_lon = 40\<rparr> = 4
   \<and> calculateZoom \<lparr>min_lat = 47, min_lon = 9, max_lat = 48, max_lon = 10\<rparr> = 9
   \<and> calculateZoom \<lparr>min_lat = 35, min_lon = -10, max_lat = 71, max_lon = 40\<rparr>
     \<le> calculateZoom \<lparr>min_lat = 47, min_lon = 9, max_lat = 48, max_lon = 10\<rparr>"
  using calculateZoom_range_antimono
    [of "\<lparr>min_lat = 35, min_lon = -10, max_lat = 71, max_lon = 40\<rparr>"
        "\<lparr>min_lat = 47, min_lon = 9, max_lat = 48, max_lon = 10\<rparr>"
        "\<lparr>min_lat = 35, min_lon = -10, max_lat = 71, max_lon = 40\<rparr>"]
  by (simp add: calculateZoom_def maxDiff_def)

text \<open>
  Claim C10. One application of \<^const>\<open>toggleExpanded\<close> flips the membership of the given
  id and of no other id, and two applications with the same id give back the original set.
\<close>

theorem toggleExpanded_flip_involution:
  "(r \<in> toggleExpanded s r \<longleftrightarrow> r \<notin> s) \<and>
   (\<forall>x. x \<noteq> r \<longrightarrow> (x \<in> toggleExpanded s r \<longleftrightarrow> x \<in> s)) \<and>
   toggleExpanded (toggleExpanded s r) r = s"
proof -
  have flips: "r \<in> toggleExpanded s r \<longleftrightarrow> r \<notin> s"
    by (simp add: toggleExpanded_def)
  have others: "x \<in> toggleExpanded s r \<longleftrightarrow> x \<in> s" if "x \<noteq> r" for x
    using that by (simp add: toggleExpanded_def)
  have twice: "toggleExpanded (toggleExpanded s r) r = s"
  proof (cases "r \<in> s")
    case True
    then show ?thesis
      by (simp add: toggleExpanded_def insert_absorb)
  next
    case False
    then show ?thesis
      by (simp add: toggleExpanded_def)
  qed
  from flips others twice show ?thesis
    by blast
qed

theorem toggleExpanded_flip_involution_witness:
  "''asia'' \<noteq> ''europe'' \<and>
   ''europe'' \<notin> {''asia''} \<and>
   ''europe'' \<in> toggleExpanded {''asia''} ''europe'' \<and>
   ''asia'' \<in> toggleExpanded {''asia''} ''europe'' \<and>
   toggleExpanded (toggleExpanded {''asia''} ''europe'') ''europe'' = {''asia''}"
  using toggleExpanded_flip_involution [of "''europe''" "{''asia''}"]
  by (simp add: toggleExpanded_def)

section \<open>Searching the region forest\<close>

lemma find_Some_holds: "find P xs = Some x \<Longrightarrow> P x \<and> x \<in> set xs"
  by (induction xs) (auto split: if_splits)

lemma find_append_case:
  "find P (xs @ ys) = (case find P xs of Some x \<Rightarrow> Some x | None \<Rightarrow> find P ys)"
  by (induction xs) auto

lemma findRegionById_preorder:
  "findRegionById ts i = find (\<lambda>t. id_R (region t) = i) (preorder_nodes ts)"
  by (induction ts i rule: findRegionById.induct)
     (auto simp add: find_append_case split: option.splits)

lemma example_forest_search:
  "findRegionById example_forest ''liechtenstein'' =
     Some (RegionTree (example_region ''liechtenstein'' ''Country'' (Some ''europe'')) [] [])"
  "findRegionById example_forest ''atlantis'' = None"
  by (simp_all add: example_forest_def example_region_def)

text \<open>
  Claim C8. \<^const>\<open>findRegionById\<close> returns the first node, in depth-first pre-order, whose
  region id is the searched one: it returns \<^const>\<open>None\<close> exactly when no node of the
  forest, at any depth, has that id, and otherwise a node with that id.
\<close>

theorem findRegionById_first_match:
  "findRegionById ts i = find (\<lambda>t. id_R (region t) = i) (preorder_nodes ts) \<and>
   (findRegionById ts i = None \<longleftrightarrow> (\<forall>t \<in> set (preorder_nodes ts). id_R (region t) \<noteq> i)) \<and>
   (\<forall>t. findRegionById ts i = Some t \<longrightarrow> id_R (region t) = i \<and> t \<in> set (preorder_nodes ts))"
proof -
  let ?nodes = "preorder_nodes ts"
  have first: "findRegionById ts i = find (\<lambda>t. id_R (region t) = i) ?nodes"
    by (rule findRegionById_preorder)
  have none: "findRegionById ts i = None \<longleftrightarrow> (\<forall>t \<in> set ?nodes. id_R (region t) \<noteq> i)"
    by (auto simp add: first find_None_iff)
  have some: "id_R (region t) = i \<and> t \<in> set ?nodes" if "findRegionById ts i = Some t" for t
    using that find_Some_holds [of "\<lambda>t. id_R (region t) = i" ?nodes t]
    by (simp add: first)
  from first none some show ?thesis
    by blast
qed

theorem findRegionById_first_match_witness:
  "findRegionById example_forest ''liechtenstein'' =
     Some (RegionTree (example_region ''liechtenstein'' ''Country'' (Some ''europe'')) [] []) \<and>
   id_R (region (RegionTree (example_region ''liechtenstein'' ''Country'' (Some ''europe'')) [] []))
     = ''liechtenstein'' \<and>
   RegionTree (example_region ''liechtenstein'' ''Country'' (Some ''europe'')) [] []
     \<in> set (preorder_nodes example_forest) \<and>
   findRegionById example_forest ''atlantis'' = None"
  using findRegionById_first_match [of example_forest "''liechtenstein''"]
  by (simp add: example_forest_search)

section \<open>The job types\<close>

lemma JobType_UNIV: "(UNIV :: JobType set) = {Download, Process, QualityAnalysis, Cleanup}"
  by (auto intro: JobType.exhaust)

text \<open>
  Claim C7, as the code has it. The job type of every \<^typ>\<open>ProcessingJob\<close> is one of exactly
  the four values Download, Process, QualityAnalysis and Cleanup, and no other value appears
  as a job type.
\<close>

theorem job_type_values:
  "job_type_name (job_type j) \<in> {''Download'', ''Process'', ''QualityAnalysis'', ''Cleanup''} \<and>
   range job_type_name = {''Download'', ''Process'', ''QualityAnalysis'', ''Cleanup''} \<and>
   card (range job_type_name) = 4"
  by (cases "job_type j") (simp_all add: JobType_UNIV)

text \<open>
  The claim names Decode where the code has Process: the job type of a processing job is not
  among the four names of the claim, and no job type is named Decode.
\<close>

theorem job_type_Process_counterexample:
  "job_type_name (job_type example_job) = ''Process'' \<and>
   job_type_name (job_type example_job) \<notin> spec_job_type_names \<and>
   ''Decode'' \<notin> range job_type_name"
  by (simp add: spec_job_type_names_def JobType_UNIV example_job_def)

section \<open>The latest file of a region\<close>

















section \<open>The order of the compared versions\<close>

lemma example_compare:
  "compare (\<lambda>a b. int b - int a) file_size ''2024-03-01'' (store_after Reject example_calls)
     ''liechtenstein'' ''2023-12-01'' ''2024-01-01'' =
       Inr \<lparr>region_id_C = ''liechtenstein'', from_version = ''2023-12-01'',
            to_version = ''2024-01-01'', comparison_date = ''2024-03-01'',
            file_size_change = 1, changes = 1\<rparr>"
  by code_simp

text \<open>
  Claim C3. When \<open>fromVersion\<close> follows \<open>toVersion\<close>, \<^const>\<open>compare\<close> fails with
  \<^const>\<open>InvalidOrder\<close> and returns no comparison, so the comparison dialog keeps the
  comparison it had; when \<open>fromVersion\<close> precedes or equals \<open>toVersion\<close>, the result is
  not \<^const>\<open>InvalidOrder\<close>.
\<close>

theorem compare_InvalidOrder:
  "(toV < fromV \<longrightarrow>
      compare differ dataset_of now st regionId fromV toV = Inl InvalidOrder \<and>
      (\<forall>c. compare differ dataset_of now st regionId fromV toV \<noteq> Inr c)) \<and>
   (fromV \<le> toV \<longrightarrow> compare differ dataset_of now st regionId fromV toV \<noteq> Inl InvalidOrder) \<and>
   (toVersion m < fromVersion m \<longrightarrow>
      comparison (handleCompare (compare differ dataset_of now st) regionId m) = comparison m)"
proof -
  have reversed: "compare differ dataset_of now st regionId fromV toV = Inl InvalidOrder"
    if "toV < fromV"
    using that by (simp add: compare_def)
  have ordered: "compare differ dataset_of now st regionId fromV toV \<noteq> Inl InvalidOrder"
    if "fromV \<le> toV"
  proof -
    from that have "\<not> toV < fromV"
      by simp
    then show ?thesis
      by (simp add: compare_def split: option.splits)
  qed
  have dialog: "comparison (handleCompare (compare differ dataset_of now st) regionId m)
      = comparison m" if lt: "toVersion m < fromVersion m"
  proof (cases "fromVersion m = [] \<or> toVersion m = []")
    case True
    then show ?thesis
      by (simp add: handleCompare_def)
  next
    case False
    from lt have "compare differ dataset_of now st regionId (fromVersion m) (toVersion m)
        = Inl InvalidOrder"
      by (simp add: compare_def)
    with False show ?thesis
      by (simp add: handleCompare_def)
  qed
  from reversed ordered dialog show ?thesis
    by auto
qed

theorem compare_InvalidOrder_witness:
  "''2023-12-01'' < ''2024-01-01'' \<and>
   compare (\<lambda>a b. int b - int a) file_size ''2024-03-01'' (store_after Reject example_calls)
     ''liechtenstein'' ''2024-01-01'' ''2023-12-01'' = Inl InvalidOrder \<and>
   compare (\<lambda>a b. int b - int a) file_size ''2024-03-01'' (store_after Reject example_calls)
     ''liechtenstein'' ''2023-12-01'' ''2024-01-01'' =
       Inr \<lparr>region_id_C = ''liechtenstein'', from_version = ''2023-12-01'',
            to_version = ''2024-01-01'', comparison_date = ''2024-03-01'',
            file_size_change = 1, changes = 1\<rparr> \<and>
   handleCompare
     (compare (\<lambda>a b. int b - int a) file_size ''2024-03-01'' (store_after Reject example_calls))
     ''liechtenstein''
     \<lparr>fromVersion = ''2024-01-01'', toVersion = ''2023-12-01'', comparison = None,
      loading_V = False, error_V = None\<rparr>
     = \<lparr>fromVersion = ''2024-01-01'', toVersion = ''2023-12-01'', comparison = None,
        loading_V = False, error_V = Some ''Failed to load version comparison''\<rparr>"
  using compare_InvalidOrder [of "''2023-12-01''" "''2024-01-01''" "\<lambda>a b. int b - int a"
     file_size "''2024-03-01''" "store_after Reject example_calls" "''liechtenstein''"
     "\<lparr>fromVersion = ''2024-01-01'', toVersion = ''2023-12-01'', comparison = None,
      loading_V = False, error_V = None\<rparr>"]
    compare_InvalidOrder [of "''2024-01-01''" "''2023-12-01''" "\<lambda>a b. int b - int a"
     file_size "''2024-03-01''" "store_after Reject example_calls" "''liechtenstein''"
     "\<lparr>fromVersion = ''2024-01-01'', toVersion = ''2023-12-01'', comparison = None,
      loading_V = False, error_V = None\<rparr>"]
  by (simp add: example_compare handleCompare_def)

section \<open>The life of a processing job\<close>

lemma job_step_iff:
  "job_step s s' \<longleftrightarrow>
     (s = Pending \<and> s' = Running) \<or>
     (s = Running \<and> (s' = Completed \<or> s' = Failed \<or> s' = Cancelled))"
  by (cases s; cases s') simp_all

lemma apply_event_step:
  "status (apply_event j e) = status j \<or> job_step (status j) (status (apply_event j e))"
  by (cases e) auto

lemma apply_event_terminal:
  "terminal (status j) \<Longrightarrow> status (apply_event j e) = status j"
  by (cases e) auto

lemma foldl_apply_event_terminal:
  "terminal (status j) \<Longrightarrow> status (foldl apply_event j es) = status j"
  by (induction es arbitrary: j) (simp_all add: apply_event_terminal)

lemma requestProcessing_only_Pending:
  "requestProcessing jobs jobId now regionId = Inr (jobs', job) \<Longrightarrow> status job = Pending"
  by (auto simp add: requestProcessing_def Let_def split: if_splits)

lemma requestProcessing_admitted:
  assumes "\<not> (\<exists>k \<in> set jobs. region_id_J k = regionId \<and> status k = Running)"
  shows "\<exists>jobs' job. requestProcessing jobs jobId now regionId = Inr (jobs', job)"
  using assms by (simp add: requestProcessing_def Let_def)

lemma lifecycle_trace:
  assumes "status j = Pending"
  shows "remdups_adj (status_trace j (job_events result cancel_after clock))
           \<in> {[Pending, Running, Completed], [Pending, Running, Failed],
              [Pending, Running, Cancelled]}"
  using assms
  by (cases "result Fetch"; cases "result Decode"; cases "result Analyze";
      cases "result Publish"; cases "cancel_after Fetch"; cases "cancel_after Decode";
      cases "cancel_after Analyze")
     (simp_all add: job_events_def)

lemma example_request:
  "requestProcessing [] ''job-1'' ''2024-01-01T06:00'' ''X'' = Inr ([example_job], example_job)"
  by (simp add: requestProcessing_def example_job_def Let_def)

lemma example_trace:
  "status_trace example_job (job_events (\<lambda>s. StageOk) (\<lambda>s. False) (\<lambda>n. ''2024-01-01T06:01''))
     = [Pending, Running, Running, Running, Running, Completed]"
  by (simp add: job_events_def example_job_def)

text \<open>
  Claim C4. A job returned by \<^const>\<open>requestProcessing\<close> is Pending; the only transitions
  are Pending to Running and Running to Completed, Failed or Cancelled, and every event
  either leaves the status or makes one of them; a job in a terminal state keeps its status
  under all further events; and a request for a region with no Running job is admitted, its
  job starts Pending, becomes Running and ends in a terminal state, whatever the outcomes of
  the stages and of the cancellation checkpoints.
\<close>

theorem job_lifecycle:
  "(\<forall>jobs' job. requestProcessing jobs jobId now regionId = Inr (jobs', job) \<longrightarrow>
      status job = Pending) \<and>
   (job_step s s' \<longleftrightarrow>
      (s = Pending \<and> s' = Running) \<or>
      (s = Running \<and> (s' = Completed \<or> s' = Failed \<or> s' = Cancelled))) \<and>
   (status (apply_event j e) = status j \<or> job_step (status j) (status (apply_event j e))) \<and>
   (terminal (status j) \<longrightarrow> status (foldl apply_event j es) = status j) \<and>
   (\<not> (\<exists>k \<in> set jobs. region_id_J k = regionId \<and> status k = Running) \<longrightarrow>
      (\<exists>jobs' job. requestProcessing jobs jobId now regionId = Inr (jobs', job) \<and>
         status job = Pending \<and>
         remdups_adj (status_trace job (job_events result cancel_after clock))
           \<in> {[Pending, Running, Completed], [Pending, Running, Failed],
              [Pending, Running, Cancelled]}))"
proof -
  have admitted: "\<exists>jobs' job. requestProcessing jobs jobId now regionId = Inr (jobs', job) \<and>
         status job = Pending \<and>
         remdups_adj (status_trace job (job_events result cancel_after clock))
           \<in> {[Pending, Running, Completed], [Pending, Running, Failed],
              [Pending, Running, Cancelled]}"
    if "\<not> (\<exists>k \<in> set jobs. region_id_J k = regionId \<and> status k = Running)"
  proof -
    from requestProcessing_admitted [OF that] obtain jobs' job
      where r: "requestProcessing jobs jobId now regionId = Inr (jobs', job)"
      by blast
    then have p: "status job = Pending"
      by (rule requestProcessing_only_Pending)
    from r p lifecycle_trace [OF p] show ?thesis
      by blast
  qed
  show ?thesis
    using admitted requestProcessing_only_Pending [of jobs jobId now regionId]
      job_step_iff [of s s'] apply_event_step [of j e] foldl_apply_event_terminal [of j es]
    by blast
qed

theorem job_lifecycle_witness:
  "requestProcessing [] ''job-1'' ''2024-01-01T06:00'' ''X'' = Inr ([example_job], example_job) \<and>
   status example_job = Pending \<and>
   remdups_adj (status_trace example_job
       (job_events (\<lambda>s. StageOk) (\<lambda>s. False) (\<lambda>n. ''2024-01-01T06:01'')))
     = [Pending, Running, Completed] \<and>
   job_step Pending Running \<and> job_step Running Completed \<and> terminal Completed \<and>
   status (foldl apply_event (example_job\<lparr>status := Completed\<rparr>)
             [Dequeued ''2024-01-01T07:00'', CancelObserved ''2024-01-01T07:01'']) = Completed"
proof -
  from job_lifecycle [where jobs = "[]" and jobId = "''job-1''" and now = "''2024-01-01T06:00''"
      and regionId = "''X''" and s = Pending and s' = Running
      and j = "example_job\<lparr>status := Completed\<rparr>" and e = "Dequeued ''2024-01-01T07:00''"
      and es = "[Dequeued ''2024-01-01T07:00'', CancelObserved ''2024-01-01T07:01'']"
      and result = "\<lambda>s. StageOk" and cancel_after = "\<lambda>s. False"
      and clock = "\<lambda>n. ''2024-01-01T06:01''"]
  have "job_step Pending Running"
    and "status (foldl apply_event (example_job\<lparr>status := Completed\<rparr>)
             [Dequeued ''2024-01-01T07:00'', CancelObserved ''2024-01-01T07:01'']) = Completed"
    by simp_all
  then show ?thesis
    by (simp add: example_request example_trace) (simp add: example_job_def)
qed

section \<open>The scores of the analyzer\<close>

lemma analyze_scores:
  "completeness_score (analyze cfg rid rdate age ds reg) = completeness ds"
  "accuracy_score (analyze cfg rid rdate age ds reg) = accuracy cfg ds"
  by (simp_all add: analyze_def quality_metrics_def Let_def)

lemma completeness_bounds: "0 \<le> completeness ds \<and> completeness ds \<le> 100"
  by (simp add: completeness_def clamp_score_def)

lemma completeness_all_tagged:
  assumes "all_tagged ds" and "0 < total_features ds"
  shows "completeness ds = 100"
proof -
  from assms(1) have eq: "tagged_features ds = total_features ds"
    by (simp add: all_tagged_def total_features_def tagged_features_def)
  from assms(2) have "100 * real (total_features ds) / real (total_features ds) = 100"
    by simp
  with assms(2) show ?thesis
    by (simp add: completeness_def clamp_score_def eq)
qed

lemma accuracy_error_free: "error_free ds \<Longrightarrow> accuracy cfg ds = 100"
  by (simp add: accuracy_def error_free_def per_thousand_def)

text \<open>
  Claim C5. The completeness score of a report is 100 times the tagged features over all
  features, clamped to [0,100], and 0 when there is no feature; in particular, on an
  all-tagged, error-free dataset accuracy is 100 and completeness is 100, the dataset without
  features being the case of the zero rule.
\<close>

theorem analyze_completeness:
  "completeness_score (analyze cfg rid rdate age ds reg) =
     (if total_features ds = 0 then 0
      else max 0 (min 100 (100 * real (tagged_features ds) / real (total_features ds)))) \<and>
   0 \<le> completeness_score (analyze cfg rid rdate age ds reg) \<and>
   completeness_score (analyze cfg rid rdate age ds reg) \<le> 100 \<and>
   (all_tagged ds \<and> error_free ds \<longrightarrow>
      accuracy_score (analyze cfg rid rdate age ds reg) = 100 \<and>
      completeness_score (analyze cfg rid rdate age ds reg) =
        (if total_features ds = 0 then 0 else 100))"
proof -
  let ?r = "analyze cfg rid rdate age ds reg"
  have formula: "completeness_score ?r =
     (if total_features ds = 0 then 0
      else max 0 (min 100 (100 * real (tagged_features ds) / real (total_features ds))))"
    by (simp add: analyze_scores completeness_def clamp_score_def)
  have bounds: "0 \<le> completeness_score ?r \<and> completeness_score ?r \<le> 100"
    using completeness_bounds [of ds] by (simp add: analyze_scores)
  have acc: "accuracy_score ?r = 100" if "error_free ds"
    using that by (simp add: analyze_scores accuracy_error_free)
  have full: "completeness_score ?r = (if total_features ds = 0 then 0 else 100)"
    if "all_tagged ds"
  proof (cases "total_features ds = 0")
    case True
    then show ?thesis
      by (simp add: analyze_scores completeness_def)
  next
    case False
    with that show ?thesis
      by (simp add: analyze_scores completeness_all_tagged)
  qed
  from formula bounds acc full show ?thesis
    by blast
qed

theorem analyze_completeness_witness:
  "all_tagged example_dataset \<and> error_free example_dataset \<and>
   total_features example_dataset = 1000 \<and>
   completeness_score
     (analyze example_config ''qr-1'' ''2024-01-01'' 0 example_dataset ''liechtenstein'') = 100 \<and>
   accuracy_score
     (analyze example_config ''qr-1'' ''2024-01-01'' 0 example_dataset ''liechtenstein'') = 100 \<and>
   all_tagged empty_dataset \<and> error_free empty_dataset \<and>
   total_features empty_dataset = 0 \<and>
   completeness_score
     (analyze example_config ''qr-0'' ''2024-01-01'' 0 empty_dataset ''liechtenstein'') = 0 \<and>
   accuracy_score
     (analyze example_config ''qr-0'' ''2024-01-01'' 0 empty_dataset ''liechtenstein'') = 100"
  using analyze_completeness
    [of example_config "''qr-1''" "''2024-01-01''" 0 example_dataset "''liechtenstein''"]
    analyze_completeness
    [of example_config "''qr-0''" "''2024-01-01''" 0 empty_dataset "''liechtenstein''"]
  by (simp add: all_tagged_def error_free_def example_dataset_def empty_dataset_def
      total_features_def)

section \<open>The identifier the quality report dialog sends\<close>

lemma getQualityReport_by_report_id:
  "getQualityReport reports reportId = fetch_report reports reportId"
  by (simp add: getQualityReport_def serve_get_def)

lemma loadQualityReport_sends_region_id:
  "loadQualityReport reports regionId m =
     (case fetch_report reports regionId of
        Inr reportData \<Rightarrow> m\<lparr>error_Q := None, report := Some reportData, loading_Q := False\<rparr>
      | Inl err \<Rightarrow> m\<lparr>error_Q := Some ''Failed to load quality report'', loading_Q := False\<rparr>)"
  by (simp add: loadQualityReport_def getQualityReport_by_report_id)

text \<open>
  Claim C6, evaluated. The read operation is keyed by report id: the report of region
  liechtenstein is found under its id qr-1. The dialog opened for that region sends the
  region id instead, which is no report id, and ends with the error message and no report.
\<close>

theorem loadQualityReport_region_id_lookup:
  "getQualityReport example_reports ''qr-1'' = Inr example_report \<and>
   region_id_Q example_report = ''liechtenstein'' \<and>
   getQualityReport example_reports ''liechtenstein'' = Inl NotFound \<and>
   loadQualityReport example_reports ''liechtenstein''
       \<lparr>report = None, loading_Q = False, error_Q = None\<rparr>
     = \<lparr>report = None, loading_Q = False, error_Q = Some ''Failed to load quality report''\<rparr>"
  by (simp add: loadQualityReport_sends_region_id getQualityReport_by_report_id
      fetch_report_def example_reports_def)
     (simp add: example_report_def analyze_def Let_def)

end
